theory Spec2Isabelle
  imports Main
begin

section \<open>Data model: the tables of \<^verbatim>\<open>flame/app.py\<close>\<close>

text \<open>
  The service is a FastAPI application over two SQLAlchemy tables.  Each route handler
  is a function of the request's parameters and of the database; here it returns its
  result (or the exception it raises) together with the database it leaves behind.

  \<^item> Python integers are \<open>int\<close>; a \<open>datetime\<close> is an opaque instant, taken as \<open>nat\<close>.
  \<^item> A table is the list of its rows in the order of insertion.  A query without
    \<^verbatim>\<open>ORDER BY\<close> scans the table in that order, and an \<^verbatim>\<open>UPDATE\<close> rewrites a row in place.
  \<^item> Column comparison (\<^verbatim>\<open>Usuario.email == usuario.email\<close>) is equality of strings.
  \<^item> \<^verbatim>\<open>id\<close> columns are integer primary keys filled by the table's sequence: every
    \<^verbatim>\<open>INSERT\<close> draws the next number, also one that fails afterwards.
  \<^item> The field \<^verbatim>\<open>id\<close> and the fields shared by both tables are prefixed (\<open>u_\<close>, \<open>e_\<close>):
    \<open>id\<close> is the identity function of HOL and record fields share one name space.
\<close>

type_synonym datetime = nat

record Usuario =
  u_id :: int
  u_nome :: string
  u_email :: string
  u_criado_em :: datetime

record Endereco =
  e_id :: int
  e_rua :: string
  e_cidade :: string
  e_cep :: "string option"
  e_usuario_id :: int
  e_criado_em :: datetime

text \<open>The validated request bodies (the pydantic schemas).\<close>

record EnderecoBase =
  rua :: string
  cidade :: string
  cep :: "string option"

record UsuarioCreate =
  nome :: string
  email :: string

record database =
  usuarios :: "Usuario list"
  enderecos :: "Endereco list"
  usuarios_seq :: int
  enderecos_seq :: int

definition empty_db :: database where
  "empty_db = \<lparr>usuarios = [], enderecos = [], usuarios_seq = 0, enderecos_seq = 0\<rparr>"

subsection \<open>Exceptions\<close>

text \<open>
  The three \<^verbatim>\<open>detail\<close> messages of the handlers, named without their accents.
\<close>

datatype detail = Email_ja_cadastrado | Usuario_nao_encontrado | Endereco_nao_encontrado

text \<open>
  \<open>HTTPException\<close> is what the handlers raise themselves.  The others come from the
  libraries and no handler catches them: \<open>IntegrityError\<close> when a commit violates a
  constraint of the schema, \<open>DataError\<close> when the database rejects a negative
  \<^verbatim>\<open>LIMIT\<close> or \<^verbatim>\<open>OFFSET\<close>, \<open>InvalidRequestError\<close> when \<^verbatim>\<open>db.refresh\<close> finds no row, and
  \<open>RequestValidationError\<close> when a body does not fit its schema.
\<close>

datatype error =
    HTTPException int detail
  | IntegrityError
  | DataError
  | InvalidRequestError
  | RequestValidationError

subsection \<open>Queries: \<^verbatim>\<open>db.query(T).filter(...).first()\<close>\<close>

definition usuario_by_id :: "int \<Rightarrow> database \<Rightarrow> Usuario option" where
  "usuario_by_id i db = find (\<lambda>u. u_id u = i) (usuarios db)"

definition usuario_by_email :: "string \<Rightarrow> database \<Rightarrow> Usuario option" where
  "usuario_by_email e db = find (\<lambda>u. u_email u = e) (usuarios db)"

definition endereco_by_id :: "int \<Rightarrow> database \<Rightarrow> Endereco option" where
  "endereco_by_id i db = find (\<lambda>e. e_id e = i) (enderecos db)"

text \<open>The relationship \<^verbatim>\<open>Usuario.enderecos\<close>: the rows whose foreign key is the user's id.\<close>

definition enderecos_of :: "int \<Rightarrow> database \<Rightarrow> Endereco list" where
  "enderecos_of i db = filter (\<lambda>e. e_usuario_id e = i) (enderecos db)"

subsection \<open>Writes: \<^verbatim>\<open>db.add\<close>, attribute assignment and \<^verbatim>\<open>db.delete\<close>, each with \<^verbatim>\<open>db.commit()\<close>\<close>

text \<open>
  \<^verbatim>\<open>INSERT INTO usuarios\<close>: the primary key and the unique index on \<^verbatim>\<open>email\<close> are checked
  by the database; \<^verbatim>\<open>criado_em\<close> takes its default, the time of the insert.
\<close>

definition insert_usuario :: "string \<Rightarrow> string \<Rightarrow> datetime \<Rightarrow> database \<Rightarrow> (error + int) \<times> database" where
  "insert_usuario n e now db =
     (let i = usuarios_seq db + 1; db1 = db\<lparr>usuarios_seq := i\<rparr> in
      if \<exists>u\<in>set (usuarios db). u_id u = i \<or> u_email u = e then (Inl IntegrityError, db1)
      else (Inr i,
            db1\<lparr>usuarios := usuarios db @ [\<lparr>u_id = i, u_nome = n, u_email = e, u_criado_em = now\<rparr>]\<rparr>))"

text \<open>\<^verbatim>\<open>UPDATE usuarios SET nome, email WHERE id = i\<close>, under the unique index on \<^verbatim>\<open>email\<close>.\<close>

definition update_usuario :: "int \<Rightarrow> string \<Rightarrow> string \<Rightarrow> database \<Rightarrow> (error + unit) \<times> database" where
  "update_usuario i n e db =
     (if \<exists>u\<in>set (usuarios db). u_id u \<noteq> i \<and> u_email u = e then (Inl IntegrityError, db)
      else (Inr (),
            db\<lparr>usuarios := map (\<lambda>u. if u_id u = i then u\<lparr>u_nome := n, u_email := e\<rparr> else u)
                               (usuarios db)\<rparr>))"

text \<open>
  \<^verbatim>\<open>db.delete(usuario)\<close>: the relationship's \<^verbatim>\<open>cascade="all, delete-orphan"\<close> and the foreign
  key's \<^verbatim>\<open>ondelete="CASCADE"\<close> remove the rows of \<^verbatim>\<open>enderecos\<close> that point to the user.
\<close>

definition delete_usuario :: "int \<Rightarrow> database \<Rightarrow> database" where
  "delete_usuario i db =
     db\<lparr>usuarios := filter (\<lambda>u. u_id u \<noteq> i) (usuarios db),
        enderecos := filter (\<lambda>e. e_usuario_id e \<noteq> i) (enderecos db)\<rparr>"

text \<open>\<^verbatim>\<open>INSERT INTO enderecos\<close>: primary key and foreign key are checked by the database.\<close>

definition insert_endereco ::
  "string \<Rightarrow> string \<Rightarrow> string option \<Rightarrow> int \<Rightarrow> datetime \<Rightarrow> database \<Rightarrow> (error + int) \<times> database" where
  "insert_endereco r c p uid now db =
     (let i = enderecos_seq db + 1; db1 = db\<lparr>enderecos_seq := i\<rparr> in
      if (\<exists>e\<in>set (enderecos db). e_id e = i) \<or> \<not> (\<exists>u\<in>set (usuarios db). u_id u = uid)
      then (Inl IntegrityError, db1)
      else (Inr i,
            db1\<lparr>enderecos := enderecos db @
               [\<lparr>e_id = i, e_rua = r, e_cidade = c, e_cep = p, e_usuario_id = uid,
                 e_criado_em = now\<rparr>]\<rparr>))"

definition update_endereco :: "int \<Rightarrow> string \<Rightarrow> string \<Rightarrow> string option \<Rightarrow> database \<Rightarrow> database" where
  "update_endereco i r c p db =
     db\<lparr>enderecos := map (\<lambda>e. if e_id e = i then e\<lparr>e_rua := r, e_cidade := c, e_cep := p\<rparr> else e)
                         (enderecos db)\<rparr>"

definition delete_endereco :: "int \<Rightarrow> database \<Rightarrow> database" where
  "delete_endereco i db = db\<lparr>enderecos := filter (\<lambda>e. e_id e \<noteq> i) (enderecos db)\<rparr>"

text \<open>\<^verbatim>\<open>db.refresh(obj)\<close> reads the row of the object's primary key again.\<close>

definition refresh_usuario :: "int \<Rightarrow> database \<Rightarrow> (error + Usuario) \<times> database" where
  "refresh_usuario i db =
     (case usuario_by_id i db of
        None \<Rightarrow> (Inl InvalidRequestError, db)
      | Some u \<Rightarrow> (Inr u, db))"

definition refresh_endereco :: "int \<Rightarrow> database \<Rightarrow> (error + Endereco) \<times> database" where
  "refresh_endereco i db =
     (case endereco_by_id i db of
        None \<Rightarrow> (Inl InvalidRequestError, db)
      | Some e \<Rightarrow> (Inr e, db))"

section \<open>Route handlers\<close>

subsection \<open>Users\<close>

text \<open>
  \<^verbatim>\<open>criar_usuario\<close> in two parts: the existence check on the email, and, from
  \<^verbatim>\<open>novo_usuario = Usuario(...)\<close> on, the insert, the commit and the refresh.
\<close>

definition criar_usuario_commit :: "UsuarioCreate \<Rightarrow> datetime \<Rightarrow> database \<Rightarrow> (error + Usuario) \<times> database" where
  "criar_usuario_commit usuario now db =
     (case insert_usuario (nome usuario) (email usuario) now db of
        (Inl err, db') \<Rightarrow> (Inl err, db')
      | (Inr i, db') \<Rightarrow> refresh_usuario i db')"

definition criar_usuario :: "UsuarioCreate \<Rightarrow> datetime \<Rightarrow> database \<Rightarrow> (error + Usuario) \<times> database" where
  "criar_usuario usuario now db =
     (case usuario_by_email (email usuario) db of
        Some usuario_existente \<Rightarrow> (Inl (HTTPException 400 Email_ja_cadastrado), db)
      | None \<Rightarrow> criar_usuario_commit usuario now db)"

definition listar_usuarios :: "int \<Rightarrow> int \<Rightarrow> database \<Rightarrow> (error + Usuario list) \<times> database" where
  "listar_usuarios skip limit db =
     (if skip < 0 \<or> limit < 0 then (Inl DataError, db)
      else (Inr (take (nat limit) (drop (nat skip) (usuarios db))), db))"

definition obter_usuario :: "int \<Rightarrow> database \<Rightarrow> (error + Usuario \<times> Endereco list) \<times> database" where
  "obter_usuario usuario_id db =
     (case usuario_by_id usuario_id db of
        None \<Rightarrow> (Inl (HTTPException 404 Usuario_nao_encontrado), db)
      | Some usuario \<Rightarrow> (Inr (usuario, enderecos_of (u_id usuario) db), db))"

definition atualizar_usuario :: "int \<Rightarrow> UsuarioCreate \<Rightarrow> database \<Rightarrow> (error + Usuario) \<times> database" where
  "atualizar_usuario usuario_id usuario db =
     (case usuario_by_id usuario_id db of
        None \<Rightarrow> (Inl (HTTPException 404 Usuario_nao_encontrado), db)
      | Some usuario_db \<Rightarrow>
          (case find (\<lambda>u. u_email u = email usuario \<and> u_id u \<noteq> usuario_id) (usuarios db) of
             Some email_existente \<Rightarrow> (Inl (HTTPException 400 Email_ja_cadastrado), db)
           | None \<Rightarrow>
               (case update_usuario (u_id usuario_db) (nome usuario) (email usuario) db of
                  (Inl err, db') \<Rightarrow> (Inl err, db')
                | (Inr _, db') \<Rightarrow> refresh_usuario (u_id usuario_db) db')))"

definition deletar_usuario :: "int \<Rightarrow> database \<Rightarrow> (error + unit) \<times> database" where
  "deletar_usuario usuario_id db =
     (case usuario_by_id usuario_id db of
        None \<Rightarrow> (Inl (HTTPException 404 Usuario_nao_encontrado), db)
      | Some usuario \<Rightarrow> (Inr (), delete_usuario (u_id usuario) db))"

subsection \<open>Addresses\<close>

definition criar_endereco :: "int \<Rightarrow> EnderecoBase \<Rightarrow> datetime \<Rightarrow> database \<Rightarrow> (error + Endereco) \<times> database" where
  "criar_endereco usuario_id endereco now db =
     (case usuario_by_id usuario_id db of
        None \<Rightarrow> (Inl (HTTPException 404 Usuario_nao_encontrado), db)
      | Some usuario \<Rightarrow>
          (case insert_endereco (rua endereco) (cidade endereco) (cep endereco) usuario_id now db of
             (Inl err, db') \<Rightarrow> (Inl err, db')
           | (Inr i, db') \<Rightarrow> refresh_endereco i db'))"

definition obter_enderecos_usuario :: "int \<Rightarrow> database \<Rightarrow> (error + Endereco list) \<times> database" where
  "obter_enderecos_usuario usuario_id db =
     (case usuario_by_id usuario_id db of
        None \<Rightarrow> (Inl (HTTPException 404 Usuario_nao_encontrado), db)
      | Some usuario \<Rightarrow> (Inr (enderecos_of (u_id usuario) db), db))"

definition atualizar_endereco :: "int \<Rightarrow> EnderecoBase \<Rightarrow> database \<Rightarrow> (error + Endereco) \<times> database" where
  "atualizar_endereco endereco_id endereco db =
     (case endereco_by_id endereco_id db of
        None \<Rightarrow> (Inl (HTTPException 404 Endereco_nao_encontrado), db)
      | Some endereco_db \<Rightarrow>
          refresh_endereco (e_id endereco_db)
            (update_endereco (e_id endereco_db) (rua endereco) (cidade endereco) (cep endereco) db))"

definition deletar_endereco :: "int \<Rightarrow> database \<Rightarrow> (error + unit) \<times> database" where
  "deletar_endereco endereco_id db =
     (case endereco_by_id endereco_id db of
        None \<Rightarrow> (Inl (HTTPException 404 Endereco_nao_encontrado), db)
      | Some endereco \<Rightarrow> (Inr (), delete_endereco (e_id endereco) db))"

section \<open>The application: routes, status codes and request histories\<close>

datatype request =
    PostUsuarios UsuarioCreate
  | GetUsuarios int int
  | GetUsuario int
  | PutUsuario int UsuarioCreate
  | DeleteUsuario int
  | PostEnderecos int EnderecoBase
  | GetEnderecos int
  | PutEndereco int EnderecoBase
  | DeleteEndereco int
  | GetRoot

datatype body =
    UsuarioResponse Usuario
  | UsuarioList "Usuario list"
  | UsuarioComEnderecos Usuario "Endereco list"
  | EnderecoResponse Endereco
  | EnderecoList "Endereco list"
  | NoContent
  | Welcome

text \<open>
  The status of a response: the route's \<^verbatim>\<open>status_code\<close> (200 when the decorator gives
  none) on return, the exception's own code for an \<open>HTTPException\<close>, 422 for a body
  that fails validation, 500 for any other exception.
\<close>

fun status_of :: "int \<Rightarrow> error + 'a \<Rightarrow> int" where
  "status_of ok (Inr _) = ok"
| "status_of ok (Inl (HTTPException code _)) = code"
| "status_of ok (Inl RequestValidationError) = 422"
| "status_of ok (Inl _) = 500"

type_synonym response = "int \<times> (error + body)"

definition respond :: "int \<Rightarrow> ('a \<Rightarrow> body) \<Rightarrow> (error + 'a) \<times> database \<Rightarrow> response \<times> database" where
  "respond ok f rd = ((status_of ok (fst rd), map_sum (\<lambda>e. e) f (fst rd)), snd rd)"

fun handle :: "request \<Rightarrow> datetime \<Rightarrow> database \<Rightarrow> response \<times> database" where
  "handle (PostUsuarios usuario) now db = respond 201 UsuarioResponse (criar_usuario usuario now db)"
| "handle (GetUsuarios skip limit) now db = respond 200 UsuarioList (listar_usuarios skip limit db)"
| "handle (GetUsuario i) now db =
     respond 200 (\<lambda>(u, es). UsuarioComEnderecos u es) (obter_usuario i db)"
| "handle (PutUsuario i usuario) now db = respond 200 UsuarioResponse (atualizar_usuario i usuario db)"
| "handle (DeleteUsuario i) now db = respond 204 (\<lambda>_. NoContent) (deletar_usuario i db)"
| "handle (PostEnderecos i endereco) now db =
     respond 201 EnderecoResponse (criar_endereco i endereco now db)"
| "handle (GetEnderecos i) now db = respond 200 EnderecoList (obter_enderecos_usuario i db)"
| "handle (PutEndereco i endereco) now db = respond 200 EnderecoResponse (atualizar_endereco i endereco db)"
| "handle (DeleteEndereco i) now db = respond 204 (\<lambda>_. NoContent) (deletar_endereco i db)"
| "handle GetRoot now db = ((200, Inr Welcome), db)"


text \<open>A history: requests served one after the other, each at its own instant.\<close>

fun run :: "(request \<times> datetime) list \<Rightarrow> database \<Rightarrow> response list \<times> database" where
  "run [] db = ([], db)"
| "run ((r, now) # rs) db =
     (let (resp, db') = handle r now db; (resps, db'') = run rs db' in (resp # resps, db''))"



section \<open>The constraints of the schema\<close>

text \<open>
  What the schema declares of every state of the database: primary keys and emails are
  unique, ids come from the sequences, and every address points to a stored user.
\<close>

definition fk_ok :: "database \<Rightarrow> bool" where
  "fk_ok db \<longleftrightarrow> (\<forall>e\<in>set (enderecos db). \<exists>u\<in>set (usuarios db). u_id u = e_usuario_id e)"

definition wf_db :: "database \<Rightarrow> bool" where
  "wf_db db \<longleftrightarrow>
     distinct (map u_id (usuarios db)) \<and>
     distinct (map u_email (usuarios db)) \<and>
     distinct (map e_id (enderecos db)) \<and>
     (\<forall>u\<in>set (usuarios db). u_id u \<le> usuarios_seq db) \<and>
     (\<forall>e\<in>set (enderecos db). e_id e \<le> enderecos_seq db) \<and>
     fk_ok db"


section \<open>Request bodies: the schema \<^verbatim>\<open>EnderecoBase\<close>\<close>

text \<open>
  A JSON body is the dictionary the framework parses it into.  Numbers are integers
  here; the schema below treats every number alike.
\<close>

datatype json =
    JNull
  | JBool bool
  | JNumber int
  | JString string
  | JArray "json list"
  | JObject "(string \<times> json) list"

text \<open>\<^verbatim>\<open>str = Field(..., min_length=lo, max_length=hi)\<close>: a string within the bounds.\<close>

definition str_field :: "nat \<Rightarrow> nat \<Rightarrow> json \<Rightarrow> error + string" where
  "str_field lo hi v =
     (case v of
        JString s \<Rightarrow> if lo \<le> length s \<and> length s \<le> hi then Inr s else Inl RequestValidationError
      | _ \<Rightarrow> Inl RequestValidationError)"

text \<open>
  The model reads its three declared fields (\<^verbatim>\<open>rua\<close>, \<^verbatim>\<open>cidade\<close> required, \<^verbatim>\<open>cep\<close> optional
  with default \<^verbatim>\<open>None\<close>) and no other key of the body.
\<close>

definition validate_EnderecoBase :: "(string \<rightharpoonup> json) \<Rightarrow> error + EnderecoBase" where
  "validate_EnderecoBase body =
     (case body ''rua'' of
        None \<Rightarrow> Inl RequestValidationError
      | Some vr \<Rightarrow>
     (case str_field 1 255 vr of
        Inl err \<Rightarrow> Inl err
      | Inr r \<Rightarrow>
     (case body ''cidade'' of
        None \<Rightarrow> Inl RequestValidationError
      | Some vc \<Rightarrow>
     (case str_field 1 100 vc of
        Inl err \<Rightarrow> Inl err
      | Inr c \<Rightarrow>
     (case body ''cep'' of
        None \<Rightarrow> Inr \<lparr>rua = r, cidade = c, cep = None\<rparr>
      | Some JNull \<Rightarrow> Inr \<lparr>rua = r, cidade = c, cep = None\<rparr>
      | Some vp \<Rightarrow>
     (case str_field 0 10 vp of
        Inl err \<Rightarrow> Inl err
      | Inr p \<Rightarrow> Inr \<lparr>rua = r, cidade = c, cep = Some p\<rparr>))))))"

text \<open>
  The route \<^verbatim>\<open>POST /usuarios/{usuario_id}/enderecos\<close> from the raw request: the id from
  the path, the address from the body.
\<close>

definition post_usuarios_enderecos ::
  "int \<Rightarrow> (string \<rightharpoonup> json) \<Rightarrow> datetime \<Rightarrow> database \<Rightarrow> response \<times> database" where
  "post_usuarios_enderecos usuario_id body now db =
     (case validate_EnderecoBase body of
        Inl err \<Rightarrow> ((status_of 201 (Inl err :: error + body), Inl err), db)
      | Inr endereco \<Rightarrow> handle (PostEnderecos usuario_id endereco) now db)"


section \<open>Requests served at the same time\<close>

text \<open>
  Handlers run in a thread pool, each with a session of its own.  A request to
  \<^verbatim>\<open>criar_usuario\<close> is at one of three points: before its existence check, between the
  check and the commit, or finished with its result.  One step runs it to the next
  point; the statements of one step reach the database together.
\<close>

datatype criar_usuario_pc = Inicio | Verificado | Terminado "error + Usuario"

definition criar_usuario_step ::
  "UsuarioCreate \<Rightarrow> datetime \<Rightarrow> criar_usuario_pc \<Rightarrow> database \<Rightarrow> criar_usuario_pc \<times> database" where
  "criar_usuario_step usuario now pc db =
     (case pc of
        Inicio \<Rightarrow>
          (case usuario_by_email (email usuario) db of
             Some usuario_existente \<Rightarrow> (Terminado (Inl (HTTPException 400 Email_ja_cadastrado)), db)
           | None \<Rightarrow> (Verificado, db))
      | Verificado \<Rightarrow>
          (case criar_usuario_commit usuario now db of (res, db') \<Rightarrow> (Terminado res, db'))
      | Terminado res \<Rightarrow> (Terminado res, db))"

text \<open>A schedule names, step by step, the request that moves.\<close>

fun interleave ::
  "nat list \<Rightarrow> (UsuarioCreate \<times> datetime \<times> criar_usuario_pc) list \<Rightarrow> database \<Rightarrow>
   (UsuarioCreate \<times> datetime \<times> criar_usuario_pc) list \<times> database" where
  "interleave [] ts db = (ts, db)"
| "interleave (k # ks) ts db =
     (if k < length ts then
        (case ts ! k of (usuario, now, pc) \<Rightarrow>
           (case criar_usuario_step usuario now pc db of
              (pc', db') \<Rightarrow> interleave ks (ts[k := (usuario, now, pc')]) db'))
      else interleave ks ts db)"

section \<open>Basic facts\<close>


lemma find_eq_None: "find P xs = None \<longleftrightarrow> (\<forall>x\<in>set xs. \<not> P x)"
  by (induction xs) auto

lemma find_SomeD: "find P xs = Some x \<Longrightarrow> x \<in> set xs \<and> P x"
  by (induction xs) (auto split: if_splits)

lemma find_append_new: "\<forall>x\<in>set xs. \<not> P x \<Longrightarrow> P y \<Longrightarrow> find P (xs @ [y]) = Some y"
  by (induction xs) auto

lemma find_map_upd:
  "find (\<lambda>x. k x = i) xs = Some y \<Longrightarrow> (\<And>x. k (f x) = k x) \<Longrightarrow>
   find (\<lambda>x. k x = i) (map (\<lambda>x. if k x = i then f x else x) xs) = Some (f y)"
  by (induction xs) (auto split: if_splits)

lemma criar_usuario_dup:
  "\<exists>x\<in>set (usuarios db). u_email x = email usuario \<Longrightarrow>
   criar_usuario usuario now db = (Inl (HTTPException 400 Email_ja_cadastrado), db)"
  by (auto simp: criar_usuario_def usuario_by_email_def find_eq_None split: option.splits)

lemma criar_usuario_ok:
  assumes "wf_db db" and "\<forall>x\<in>set (usuarios db). u_email x \<noteq> email usuario"
  shows "criar_usuario usuario now db =
     (Inr \<lparr>u_id = usuarios_seq db + 1, u_nome = nome usuario, u_email = email usuario, u_criado_em = now\<rparr>,
      db\<lparr>usuarios_seq := usuarios_seq db + 1,
         usuarios := usuarios db @ [\<lparr>u_id = usuarios_seq db + 1, u_nome = nome usuario,
                                    u_email = email usuario, u_criado_em = now\<rparr>]\<rparr>)"
proof -
  have none: "usuario_by_email (email usuario) db = None"
    using assms(2) by (simp add: usuario_by_email_def find_eq_None)
  have fresh: "\<forall>x\<in>set (usuarios db). u_id x \<noteq> usuarios_seq db + 1"
    using assms(1) by (fastforce simp: wf_db_def)
  show ?thesis
    using none fresh assms(2)
    by (simp add: criar_usuario_def criar_usuario_commit_def insert_usuario_def Let_def
        refresh_usuario_def usuario_by_id_def find_append_new)
qed

lemma wf_criar_usuario: "wf_db db \<Longrightarrow> wf_db (snd (criar_usuario usuario now db))"
proof (cases "\<exists>x\<in>set (usuarios db). u_email x = email usuario")
  case True
  assume "wf_db db"
  then show ?thesis using criar_usuario_dup[OF True] by simp
next
  case False
  assume wf: "wf_db db"
  from False have ne: "\<forall>x\<in>set (usuarios db). u_email x \<noteq> email usuario" by blast
  show ?thesis
    using wf ne unfolding criar_usuario_ok[OF wf ne]
    by (fastforce simp: wf_db_def fk_ok_def)
qed


lemma snd_respond [simp]: "snd (respond ok f rd) = snd rd"
  by (simp add: respond_def)


lemma atualizar_usuario_nf:
  "usuario_by_id i db = None \<Longrightarrow>
   atualizar_usuario i usuario db = (Inl (HTTPException 404 Usuario_nao_encontrado), db)"
  by (simp add: atualizar_usuario_def)

lemma atualizar_usuario_dup:
  "usuario_by_id i db = Some old \<Longrightarrow> \<exists>x\<in>set (usuarios db). u_email x = email usuario \<and> u_id x \<noteq> i \<Longrightarrow>
   atualizar_usuario i usuario db = (Inl (HTTPException 400 Email_ja_cadastrado), db)"
  by (auto simp: atualizar_usuario_def find_eq_None split: option.splits)

lemma usuario_by_id_SomeD: "usuario_by_id i db = Some u \<Longrightarrow> u \<in> set (usuarios db) \<and> u_id u = i"
  unfolding usuario_by_id_def by (rule find_SomeD)

lemma endereco_by_id_SomeD: "endereco_by_id i db = Some e \<Longrightarrow> e \<in> set (enderecos db) \<and> e_id e = i"
  unfolding endereco_by_id_def by (rule find_SomeD)

lemma atualizar_usuario_ok:
  assumes "usuario_by_id i db = Some old"
    and "\<forall>x\<in>set (usuarios db). u_id x \<noteq> i \<longrightarrow> u_email x \<noteq> email usuario"
  shows "atualizar_usuario i usuario db =
     (Inr (old\<lparr>u_nome := nome usuario, u_email := email usuario\<rparr>),
      db\<lparr>usuarios := map (\<lambda>u. if u_id u = i then u\<lparr>u_nome := nome usuario, u_email := email usuario\<rparr> else u)
                         (usuarios db)\<rparr>)"
proof -
  have oid: "u_id old = i" using assms(1) by (simp add: usuario_by_id_SomeD)
  have nodup: "find (\<lambda>u. u_email u = email usuario \<and> u_id u \<noteq> i) (usuarios db) = None"
    using assms(2) by (auto simp: find_eq_None)
  have noviol: "\<not> (\<exists>u\<in>set (usuarios db). u_id u \<noteq> i \<and> u_email u = email usuario)"
    using assms(2) by blast
  have again: "find (\<lambda>u. u_id u = i)
       (map (\<lambda>u. if u_id u = i then u\<lparr>u_nome := nome usuario, u_email := email usuario\<rparr> else u) (usuarios db))
     = Some (old\<lparr>u_nome := nome usuario, u_email := email usuario\<rparr>)"
    using assms(1) unfolding usuario_by_id_def
    by (rule find_map_upd) simp
  show ?thesis
    using assms(1) nodup noviol again oid
    by (simp add: atualizar_usuario_def update_usuario_def refresh_usuario_def usuario_by_id_def)
qed

lemma distinct_email_update:
  "distinct (map u_id us) \<Longrightarrow> distinct (map u_email us) \<Longrightarrow>
   \<forall>x\<in>set us. u_id x \<noteq> i \<longrightarrow> u_email x \<noteq> e \<Longrightarrow>
   distinct (map u_email (map (\<lambda>u. if u_id u = i then u\<lparr>u_nome := n, u_email := e\<rparr> else u) us))"
proof (induction us)
  case Nil
  then show ?case by simp
next
  case (Cons a us)
  then show ?case by (auto simp: image_iff)
qed

lemma map_id_update:
  "map u_id (map (\<lambda>u. if u_id u = i then u\<lparr>u_nome := n, u_email := e\<rparr> else u) us) = map u_id us"
  by (induction us) auto

lemma fk_same_ids:
  assumes "fk_ok db" and "u_id ` set us = u_id ` set (usuarios db)"
  shows "fk_ok (db\<lparr>usuarios := us\<rparr>)"
  unfolding fk_ok_def
proof
  fix a assume "a \<in> set (enderecos (db\<lparr>usuarios := us\<rparr>))"
  then have "a \<in> set (enderecos db)" by simp
  then have "e_usuario_id a \<in> u_id ` set (usuarios db)"
    using assms(1) unfolding fk_ok_def by (metis imageI)
  then have "e_usuario_id a \<in> u_id ` set us" using assms(2) by simp
  then obtain u where "u \<in> set us" and "u_id u = e_usuario_id a" by (metis imageE)
  then show "\<exists>u\<in>set (usuarios (db\<lparr>usuarios := us\<rparr>)). u_id u = e_usuario_id a" by auto
qed

lemma wf_update_usuarios:
  assumes "wf_db db" and "\<forall>x\<in>set (usuarios db). u_id x \<noteq> i \<longrightarrow> u_email x \<noteq> e"
  shows "wf_db (db\<lparr>usuarios := map (\<lambda>u. if u_id u = i then u\<lparr>u_nome := n, u_email := e\<rparr> else u) (usuarios db)\<rparr>)"
proof -
  define us where "us = map (\<lambda>u. if u_id u = i then u\<lparr>u_nome := n, u_email := e\<rparr> else u) (usuarios db)"
  have ids: "map u_id us = map u_id (usuarios db)" unfolding us_def by (rule map_id_update)
  have idset: "u_id ` set us = u_id ` set (usuarios db)"
    using ids by (metis set_map)
  have d2: "distinct (map u_email us)"
    unfolding us_def using assms by (intro distinct_email_update) (auto simp: wf_db_def)
  have le: "\<forall>u\<in>set us. u_id u \<le> usuarios_seq db"
  proof
    fix u assume "u \<in> set us"
    then have "u_id u \<in> u_id ` set (usuarios db)" using idset by blast
    then show "u_id u \<le> usuarios_seq db" using assms(1) by (auto simp: wf_db_def)
  qed
  have fk: "fk_ok (db\<lparr>usuarios := us\<rparr>)"
    using assms(1) idset by (intro fk_same_ids) (simp_all add: wf_db_def)
  have "wf_db (db\<lparr>usuarios := us\<rparr>)"
    using assms(1) d2 le fk ids
    unfolding wf_db_def by simp
  then show ?thesis unfolding us_def .
qed

lemma wf_atualizar_usuario: "wf_db db \<Longrightarrow> wf_db (snd (atualizar_usuario i usuario db))"
proof -
  assume wf: "wf_db db"
  show ?thesis
  proof (cases "usuario_by_id i db")
    case None
    then show ?thesis using wf by (simp add: atualizar_usuario_nf)
  next
    case (Some old)
    show ?thesis
    proof (cases "\<exists>x\<in>set (usuarios db). u_email x = email usuario \<and> u_id x \<noteq> i")
      case True
      then show ?thesis using wf atualizar_usuario_dup[OF Some True] by simp
    next
      case False
      then have ne: "\<forall>x\<in>set (usuarios db). u_id x \<noteq> i \<longrightarrow> u_email x \<noteq> email usuario" by blast
      show ?thesis
        unfolding atualizar_usuario_ok[OF Some ne] using wf_update_usuarios[OF wf ne] by simp
    qed
  qed
qed

lemma fk_delete_usuario: "fk_ok db \<Longrightarrow> fk_ok (delete_usuario i db)"
  unfolding fk_ok_def delete_usuario_def
  by simp metis

lemma wf_delete_usuario: "wf_db db \<Longrightarrow> wf_db (delete_usuario i db)"
  using fk_delete_usuario[of db i]
  unfolding wf_db_def delete_usuario_def
  by (simp add: distinct_map_filter)

lemma wf_deletar_usuario: "wf_db db \<Longrightarrow> wf_db (snd (deletar_usuario i db))"
  by (auto simp: deletar_usuario_def wf_delete_usuario split: option.splits)


lemma criar_endereco_nf:
  "usuario_by_id uid db = None \<Longrightarrow>
   criar_endereco uid endereco now db = (Inl (HTTPException 404 Usuario_nao_encontrado), db)"
  by (simp add: criar_endereco_def)

lemma criar_endereco_ok:
  assumes "wf_db db" and "usuario_by_id uid db = Some u"
  shows "criar_endereco uid endereco now db =
     (Inr \<lparr>e_id = enderecos_seq db + 1, e_rua = rua endereco, e_cidade = cidade endereco,
            e_cep = cep endereco, e_usuario_id = uid, e_criado_em = now\<rparr>,
      db\<lparr>enderecos_seq := enderecos_seq db + 1,
         enderecos := enderecos db @
           [\<lparr>e_id = enderecos_seq db + 1, e_rua = rua endereco, e_cidade = cidade endereco,
             e_cep = cep endereco, e_usuario_id = uid, e_criado_em = now\<rparr>]\<rparr>)"
proof -
  have fresh: "\<forall>x\<in>set (enderecos db). e_id x \<noteq> enderecos_seq db + 1"
    using assms(1) by (fastforce simp: wf_db_def)
  have ex: "\<exists>x\<in>set (usuarios db). u_id x = uid"
    using usuario_by_id_SomeD[OF assms(2)] by blast
  show ?thesis
    using fresh ex assms(2)
    by (simp add: criar_endereco_def insert_endereco_def Let_def refresh_endereco_def
        endereco_by_id_def find_append_new)
qed

lemma wf_criar_endereco: "wf_db db \<Longrightarrow> wf_db (snd (criar_endereco uid endereco now db))"
proof -
  assume wf: "wf_db db"
  show ?thesis
  proof (cases "usuario_by_id uid db")
    case None
    then show ?thesis using wf by (simp add: criar_endereco_nf)
  next
    case (Some u)
    have ex: "\<exists>x\<in>set (usuarios db). u_id x = uid"
      using usuario_by_id_SomeD[OF Some] by blast
    show ?thesis
      unfolding criar_endereco_ok[OF wf Some] using wf ex
      by (fastforce simp: wf_db_def fk_ok_def)
  qed
qed

lemma atualizar_endereco_nf:
  "endereco_by_id i db = None \<Longrightarrow>
   atualizar_endereco i endereco db = (Inl (HTTPException 404 Endereco_nao_encontrado), db)"
  by (simp add: atualizar_endereco_def)

lemma find_map_upd_e:
  "find (\<lambda>x. e_id x = i) xs = Some y \<Longrightarrow>
   find (\<lambda>x. e_id x = i) (map (\<lambda>x. if e_id x = i then x\<lparr>e_rua := r, e_cidade := c, e_cep := p\<rparr> else x) xs)
     = Some (y\<lparr>e_rua := r, e_cidade := c, e_cep := p\<rparr>)"
  by (induction xs) (auto split: if_splits)

lemma atualizar_endereco_ok:
  assumes "endereco_by_id i db = Some old"
  shows "atualizar_endereco i endereco db =
     (Inr (old\<lparr>e_rua := rua endereco, e_cidade := cidade endereco, e_cep := cep endereco\<rparr>),
      update_endereco i (rua endereco) (cidade endereco) (cep endereco) db)"
proof -
  have oid: "e_id old = i" using assms by (simp add: endereco_by_id_SomeD)
  show ?thesis
    using assms oid find_map_upd_e[of i "enderecos db" old]
    by (simp add: atualizar_endereco_def refresh_endereco_def endereco_by_id_def update_endereco_def)
qed

lemma map_keys_update_endereco:
  "map e_id (map (\<lambda>x. if e_id x = i then x\<lparr>e_rua := r, e_cidade := c, e_cep := p\<rparr> else x) xs) = map e_id xs"
  "map e_usuario_id (map (\<lambda>x. if e_id x = i then x\<lparr>e_rua := r, e_cidade := c, e_cep := p\<rparr> else x) xs)
     = map e_usuario_id xs"
  by (induction xs) auto

lemma fk_ok_alt: "fk_ok db \<longleftrightarrow> set (map e_usuario_id (enderecos db)) \<subseteq> set (map u_id (usuarios db))"
  unfolding fk_ok_def by (simp add: subset_iff image_iff Bex_def Ball_def) metis

lemma wf_db_alt:
  "wf_db db \<longleftrightarrow>
     distinct (map u_id (usuarios db)) \<and> distinct (map u_email (usuarios db)) \<and>
     distinct (map e_id (enderecos db)) \<and>
     (\<forall>i\<in>set (map u_id (usuarios db)). i \<le> usuarios_seq db) \<and>
     (\<forall>i\<in>set (map e_id (enderecos db)). i \<le> enderecos_seq db) \<and>
     set (map e_usuario_id (enderecos db)) \<subseteq> set (map u_id (usuarios db))"
  unfolding wf_db_def fk_ok_alt by auto

lemma fk_update_endereco: "fk_ok db \<Longrightarrow> fk_ok (update_endereco i r c p db)"
  unfolding fk_ok_alt update_endereco_def
  by (simp del: map_map add: map_keys_update_endereco)

lemma wf_update_endereco: "wf_db db \<Longrightarrow> wf_db (update_endereco i r c p db)"
  unfolding wf_db_alt update_endereco_def
  by (simp del: map_map add: map_keys_update_endereco) 

lemma wf_atualizar_endereco: "wf_db db \<Longrightarrow> wf_db (snd (atualizar_endereco i endereco db))"
  by (cases "endereco_by_id i db")
     (simp_all add: atualizar_endereco_nf atualizar_endereco_ok wf_update_endereco)

lemma fk_delete_endereco: "fk_ok db \<Longrightarrow> fk_ok (delete_endereco i db)"
  unfolding fk_ok_def delete_endereco_def by simp

lemma wf_delete_endereco: "wf_db db \<Longrightarrow> wf_db (delete_endereco i db)"
  unfolding wf_db_def fk_ok_def delete_endereco_def by (simp add: distinct_map_filter)

lemma wf_deletar_endereco: "wf_db db \<Longrightarrow> wf_db (snd (deletar_endereco i db))"
  by (auto simp: deletar_endereco_def wf_delete_endereco split: option.splits)

lemma snd_listar_usuarios [simp]: "snd (listar_usuarios skip limit db) = db"
  by (simp add: listar_usuarios_def)

lemma snd_obter_usuario [simp]: "snd (obter_usuario i db) = db"
  by (simp add: obter_usuario_def split: option.splits)

lemma snd_obter_enderecos_usuario [simp]: "snd (obter_enderecos_usuario i db) = db"
  by (simp add: obter_enderecos_usuario_def split: option.splits)

lemma wf_handle: "wf_db db \<Longrightarrow> wf_db (snd (handle r now db))"
  by (cases r)
     (simp_all add: wf_criar_usuario wf_atualizar_usuario wf_deletar_usuario wf_criar_endereco
        wf_atualizar_endereco wf_deletar_endereco)

lemma snd_run_Cons: "snd (run ((r, now) # rs) db) = snd (run rs (snd (handle r now db)))"
  by (simp split: prod.splits)


lemma wf_run: "wf_db db \<Longrightarrow> wf_db (snd (run rs db))"
proof (induction rs arbitrary: db)
  case Nil
  then show ?case by simp
next
  case (Cons a rs)
  obtain r now where a: "a = (r, now)" by (cases a)
  have "wf_db (snd (handle r now db))" using Cons.prems by (rule wf_handle)
  then have "wf_db (snd (run rs (snd (handle r now db))))" by (rule Cons.IH)
  then show ?case unfolding a snd_run_Cons .
qed


lemma fk_criar_usuario: "fk_ok db \<Longrightarrow> fk_ok (snd (criar_usuario usuario now db))"
  unfolding fk_ok_def
  by (auto simp: criar_usuario_def criar_usuario_commit_def insert_usuario_def Let_def
      refresh_usuario_def split: option.splits)

lemma fk_atualizar_usuario: "fk_ok db \<Longrightarrow> fk_ok (snd (atualizar_usuario i usuario db))"
proof -
  assume fk: "fk_ok db"
  have "fk_ok (db\<lparr>usuarios := map (\<lambda>u. if u_id u = j then u\<lparr>u_nome := n, u_email := e\<rparr> else u) (usuarios db)\<rparr>)"
    for j n e
    using fk by (intro fk_same_ids) (simp_all only: map_id_update flip: set_map)
  then show ?thesis using fk
    by (auto simp: atualizar_usuario_def update_usuario_def refresh_usuario_def split: option.splits)
qed

lemma fk_deletar_usuario: "fk_ok db \<Longrightarrow> fk_ok (snd (deletar_usuario i db))"
  by (auto simp: deletar_usuario_def fk_delete_usuario split: option.splits)

lemma fk_criar_endereco: "fk_ok db \<Longrightarrow> fk_ok (snd (criar_endereco uid endereco now db))"
  unfolding fk_ok_def
  by (auto simp: criar_endereco_def insert_endereco_def Let_def refresh_endereco_def
      split: option.splits)

lemma fk_atualizar_endereco: "fk_ok db \<Longrightarrow> fk_ok (snd (atualizar_endereco i endereco db))"
  by (auto simp: atualizar_endereco_def refresh_endereco_def fk_update_endereco split: option.splits)

lemma fk_deletar_endereco: "fk_ok db \<Longrightarrow> fk_ok (snd (deletar_endereco i db))"
  by (auto simp: deletar_endereco_def fk_delete_endereco split: option.splits)

lemma fk_handle: "fk_ok db \<Longrightarrow> fk_ok (snd (handle r now db))"
  by (cases r)
     (simp_all add: fk_criar_usuario fk_atualizar_usuario fk_deletar_usuario fk_criar_endereco
        fk_atualizar_endereco fk_deletar_endereco)













section \<open>Creating a user\<close>



section \<open>Deleting a user\<close>

lemma distinct_map_inj: "distinct (map f xs) \<Longrightarrow> x \<in> set xs \<Longrightarrow> y \<in> set xs \<Longrightarrow> f x = f y \<Longrightarrow> x = y"
  by (simp add: distinct_map inj_on_def)

lemma usuario_by_id_None: "usuario_by_id i db = None \<longleftrightarrow> (\<forall>u\<in>set (usuarios db). u_id u \<noteq> i)"
  by (simp add: usuario_by_id_def find_eq_None)

lemma endereco_by_id_None: "endereco_by_id i db = None \<longleftrightarrow> (\<forall>e\<in>set (enderecos db). e_id e \<noteq> i)"
  by (simp add: endereco_by_id_def find_eq_None)

lemma fk_run: "fk_ok db \<Longrightarrow> fk_ok (snd (run rs db))"
proof (induction rs arbitrary: db)
  case Nil
  then show ?case by simp
next
  case (Cons a rs)
  obtain r now where a: "a = (r, now)" by (cases a)
  have "fk_ok (snd (handle r now db))" using Cons.prems by (rule fk_handle)
  then have "fk_ok (snd (run rs (snd (handle r now db))))" by (rule Cons.IH)
  then show ?case unfolding a snd_run_Cons .
qed

lemma deletar_usuario_nf:
  "\<forall>u\<in>set (usuarios db). u_id u \<noteq> i \<Longrightarrow>
   deletar_usuario i db = (Inl (HTTPException 404 Usuario_nao_encontrado), db)"
  using usuario_by_id_None[of i db] by (simp add: deletar_usuario_def)

lemma deletar_usuario_ok:
  "\<exists>u\<in>set (usuarios db). u_id u = i \<Longrightarrow> deletar_usuario i db = (Inr (), delete_usuario i db)"
  by (cases "usuario_by_id i db")
     (auto simp: deletar_usuario_def usuario_by_id_None dest: usuario_by_id_SomeD)

lemma deletar_endereco_nf:
  "\<forall>e\<in>set (enderecos db). e_id e \<noteq> i \<Longrightarrow>
   deletar_endereco i db = (Inl (HTTPException 404 Endereco_nao_encontrado), db)"
  using endereco_by_id_None[of i db] by (simp add: deletar_endereco_def)

lemma cascade_gone:
  assumes "wf_db db" and "e \<in> set (enderecos db)" and "e_usuario_id e = i"
  shows "\<forall>x\<in>set (enderecos (delete_usuario i db)). e_id x \<noteq> e_id e"
proof (intro ballI notI)
  fix x assume x: "x \<in> set (enderecos (delete_usuario i db))" and same: "e_id x = e_id e"
  from x have xin: "x \<in> set (enderecos db)" and xu: "e_usuario_id x \<noteq> i"
    by (simp_all add: delete_usuario_def)
  have "distinct (map e_id (enderecos db))" using assms(1) by (simp add: wf_db_def)
  then have "x = e" using xin assms(2) same by (rule distinct_map_inj)
  then show False using xu assms(3) by simp
qed

text \<open>
Claim C2.  In a database that satisfies the schema's constraints, deleting an id that
  no user has raises \<open>HTTPException 404\<close> and leaves the database unchanged.  Deleting
  the id of a stored user answers 204, removes the rows of that user and every address
  whose \<open>usuario_id\<close> is that id, and keeps every other row: afterwards no address has
  that \<open>usuario_id\<close>, and looking up the id of a removed address (as \<open>atualizar_endereco\<close>
  and \<open>deletar_endereco\<close> do) finds nothing and raises \<open>HTTPException 404\<close>.  Every
  request, and every history of requests, leaves a database in which each address
  points to a stored user (\<open>fk_ok\<close>) and all constraints of the schema hold (\<open>wf_db\<close>).
\<close>

theorem deletar_usuario_spec:
  assumes "wf_db db"
  shows
   "((\<forall>u\<in>set (usuarios db). u_id u \<noteq> i) \<longrightarrow>
       deletar_usuario i db = (Inl (HTTPException 404 Usuario_nao_encontrado), db) \<and>
       handle (DeleteUsuario i) now db =
         ((404, Inl (HTTPException 404 Usuario_nao_encontrado)), db)) \<and>
    ((\<exists>u\<in>set (usuarios db). u_id u = i) \<longrightarrow>
       (\<exists>db'. deletar_usuario i db = (Inr (), db') \<and>
          handle (DeleteUsuario i) now db = ((204, Inr NoContent), db') \<and>
          usuarios db' = filter (\<lambda>u. u_id u \<noteq> i) (usuarios db) \<and>
          enderecos db' = filter (\<lambda>e. e_usuario_id e \<noteq> i) (enderecos db) \<and>
          usuario_by_id i db' = None \<and>
          (\<forall>e\<in>set (enderecos db'). e_usuario_id e \<noteq> i) \<and>
          (\<forall>e\<in>set (enderecos db). e_usuario_id e = i \<longrightarrow>
             endereco_by_id (e_id e) db' = None \<and>
             atualizar_endereco (e_id e) endereco db' =
               (Inl (HTTPException 404 Endereco_nao_encontrado), db') \<and>
             deletar_endereco (e_id e) db' =
               (Inl (HTTPException 404 Endereco_nao_encontrado), db')))) \<and>
    fk_ok (snd (handle r now db)) \<and> wf_db (snd (handle r now db)) \<and>
    fk_ok (snd (run rs db)) \<and> wf_db (snd (run rs db))"
proof (intro conjI impI)
  assume nf: "\<forall>u\<in>set (usuarios db). u_id u \<noteq> i"
  show "deletar_usuario i db = (Inl (HTTPException 404 Usuario_nao_encontrado), db)"
    using nf by (rule deletar_usuario_nf)
  then show "handle (DeleteUsuario i) now db =
         ((404, Inl (HTTPException 404 Usuario_nao_encontrado)), db)"
    by (simp add: respond_def)
next
  assume ex: "\<exists>u\<in>set (usuarios db). u_id u = i"
  define db' where "db' = delete_usuario i db"
  have res: "deletar_usuario i db = (Inr (), db')"
    unfolding db'_def using ex by (rule deletar_usuario_ok)
  have gone: "\<forall>e\<in>set (enderecos db). e_usuario_id e = i \<longrightarrow>
             endereco_by_id (e_id e) db' = None \<and>
             atualizar_endereco (e_id e) endereco db' =
               (Inl (HTTPException 404 Endereco_nao_encontrado), db') \<and>
             deletar_endereco (e_id e) db' =
               (Inl (HTTPException 404 Endereco_nao_encontrado), db')"
  proof (intro ballI impI)
    fix e assume "e \<in> set (enderecos db)" and "e_usuario_id e = i"
    then have none: "\<forall>x\<in>set (enderecos db'). e_id x \<noteq> e_id e"
      unfolding db'_def using assms cascade_gone by blast
    then have "endereco_by_id (e_id e) db' = None" by (simp add: endereco_by_id_None)
    then show "endereco_by_id (e_id e) db' = None \<and>
             atualizar_endereco (e_id e) endereco db' =
               (Inl (HTTPException 404 Endereco_nao_encontrado), db') \<and>
             deletar_endereco (e_id e) db' =
               (Inl (HTTPException 404 Endereco_nao_encontrado), db')"
      by (simp add: atualizar_endereco_nf deletar_endereco_def)
  qed
  show "\<exists>db'. deletar_usuario i db = (Inr (), db') \<and>
          handle (DeleteUsuario i) now db = ((204, Inr NoContent), db') \<and>
          usuarios db' = filter (\<lambda>u. u_id u \<noteq> i) (usuarios db) \<and>
          enderecos db' = filter (\<lambda>e. e_usuario_id e \<noteq> i) (enderecos db) \<and>
          usuario_by_id i db' = None \<and>
          (\<forall>e\<in>set (enderecos db'). e_usuario_id e \<noteq> i) \<and>
          (\<forall>e\<in>set (enderecos db). e_usuario_id e = i \<longrightarrow>
             endereco_by_id (e_id e) db' = None \<and>
             atualizar_endereco (e_id e) endereco db' =
               (Inl (HTTPException 404 Endereco_nao_encontrado), db') \<and>
             deletar_endereco (e_id e) db' =
               (Inl (HTTPException 404 Endereco_nao_encontrado), db'))"
  proof (intro exI[of _ db'] conjI)
    show "deletar_usuario i db = (Inr (), db')" by (rule res)
    show "handle (DeleteUsuario i) now db = ((204, Inr NoContent), db')"
      by (simp add: res respond_def)
    show "usuarios db' = filter (\<lambda>u. u_id u \<noteq> i) (usuarios db)"
      by (simp add: db'_def delete_usuario_def)
    show "enderecos db' = filter (\<lambda>e. e_usuario_id e \<noteq> i) (enderecos db)"
      by (simp add: db'_def delete_usuario_def)
    show "usuario_by_id i db' = None"
      by (simp add: usuario_by_id_None db'_def delete_usuario_def)
    show "\<forall>e\<in>set (enderecos db'). e_usuario_id e \<noteq> i"
      by (simp add: db'_def delete_usuario_def)
    show "\<forall>e\<in>set (enderecos db). e_usuario_id e = i \<longrightarrow>
             endereco_by_id (e_id e) db' = None \<and>
             atualizar_endereco (e_id e) endereco db' =
               (Inl (HTTPException 404 Endereco_nao_encontrado), db') \<and>
             deletar_endereco (e_id e) db' =
               (Inl (HTTPException 404 Endereco_nao_encontrado), db')"
      by (rule gone)
  qed
next
  have fk: "fk_ok db" using assms by (simp add: wf_db_def)
  show "fk_ok (snd (handle r now db))" using fk by (rule fk_handle)
  show "wf_db (snd (handle r now db))" using assms by (rule wf_handle)
  show "fk_ok (snd (run rs db))" using fk by (rule fk_run)
  show "wf_db (snd (run rs db))" using assms by (rule wf_run)
qed

theorem deletar_usuario_spec_witness:
  "wf_db \<lparr>usuarios = [\<lparr>u_id = 1, u_nome = ''Ana'', u_email = ''ana@x.org'', u_criado_em = 1\<rparr>,
                       \<lparr>u_id = 2, u_nome = ''Bia'', u_email = ''bia@x.org'', u_criado_em = 2\<rparr>],
          enderecos = [\<lparr>e_id = 1, e_rua = ''Rua A'', e_cidade = ''Recife'', e_cep = None,
                         e_usuario_id = 1, e_criado_em = 3\<rparr>,
                       \<lparr>e_id = 2, e_rua = ''Rua B'', e_cidade = ''Natal'', e_cep = Some ''59000'',
                         e_usuario_id = 2, e_criado_em = 4\<rparr>,
                       \<lparr>e_id = 3, e_rua = ''Rua C'', e_cidade = ''Olinda'', e_cep = None,
                         e_usuario_id = 1, e_criado_em = 5\<rparr>],
          usuarios_seq = 2, enderecos_seq = 3\<rparr> \<and>
   handle (DeleteUsuario 1) 6
     \<lparr>usuarios = [\<lparr>u_id = 1, u_nome = ''Ana'', u_email = ''ana@x.org'', u_criado_em = 1\<rparr>,
                   \<lparr>u_id = 2, u_nome = ''Bia'', u_email = ''bia@x.org'', u_criado_em = 2\<rparr>],
      enderecos = [\<lparr>e_id = 1, e_rua = ''Rua A'', e_cidade = ''Recife'', e_cep = None,
                     e_usuario_id = 1, e_criado_em = 3\<rparr>,
                   \<lparr>e_id = 2, e_rua = ''Rua B'', e_cidade = ''Natal'', e_cep = Some ''59000'',
                     e_usuario_id = 2, e_criado_em = 4\<rparr>,
                   \<lparr>e_id = 3, e_rua = ''Rua C'', e_cidade = ''Olinda'', e_cep = None,
                     e_usuario_id = 1, e_criado_em = 5\<rparr>],
      usuarios_seq = 2, enderecos_seq = 3\<rparr> =
   ((204, Inr NoContent),
    \<lparr>usuarios = [\<lparr>u_id = 2, u_nome = ''Bia'', u_email = ''bia@x.org'', u_criado_em = 2\<rparr>],
      enderecos = [\<lparr>e_id = 2, e_rua = ''Rua B'', e_cidade = ''Natal'', e_cep = Some ''59000'',
                     e_usuario_id = 2, e_criado_em = 4\<rparr>],
      usuarios_seq = 2, enderecos_seq = 3\<rparr>) \<and>
   deletar_endereco 3
    \<lparr>usuarios = [\<lparr>u_id = 2, u_nome = ''Bia'', u_email = ''bia@x.org'', u_criado_em = 2\<rparr>],
      enderecos = [\<lparr>e_id = 2, e_rua = ''Rua B'', e_cidade = ''Natal'', e_cep = Some ''59000'',
                     e_usuario_id = 2, e_criado_em = 4\<rparr>],
      usuarios_seq = 2, enderecos_seq = 3\<rparr> =
   (Inl (HTTPException 404 Endereco_nao_encontrado),
    \<lparr>usuarios = [\<lparr>u_id = 2, u_nome = ''Bia'', u_email = ''bia@x.org'', u_criado_em = 2\<rparr>],
      enderecos = [\<lparr>e_id = 2, e_rua = ''Rua B'', e_cidade = ''Natal'', e_cep = Some ''59000'',
                     e_usuario_id = 2, e_criado_em = 4\<rparr>],
      usuarios_seq = 2, enderecos_seq = 3\<rparr>) \<and>
   handle (DeleteUsuario 7) 6
     \<lparr>usuarios = [\<lparr>u_id = 2, u_nome = ''Bia'', u_email = ''bia@x.org'', u_criado_em = 2\<rparr>],
      enderecos = [\<lparr>e_id = 2, e_rua = ''Rua B'', e_cidade = ''Natal'', e_cep = Some ''59000'',
                     e_usuario_id = 2, e_criado_em = 4\<rparr>],
      usuarios_seq = 2, enderecos_seq = 3\<rparr> =
   ((404, Inl (HTTPException 404 Usuario_nao_encontrado)),
    \<lparr>usuarios = [\<lparr>u_id = 2, u_nome = ''Bia'', u_email = ''bia@x.org'', u_criado_em = 2\<rparr>],
      enderecos = [\<lparr>e_id = 2, e_rua = ''Rua B'', e_cidade = ''Natal'', e_cep = Some ''59000'',
                     e_usuario_id = 2, e_criado_em = 4\<rparr>],
      usuarios_seq = 2, enderecos_seq = 3\<rparr>)"
proof -
  let ?db = "\<lparr>usuarios = [\<lparr>u_id = 1, u_nome = ''Ana'', u_email = ''ana@x.org'', u_criado_em = 1\<rparr>,
                       \<lparr>u_id = 2, u_nome = ''Bia'', u_email = ''bia@x.org'', u_criado_em = 2\<rparr>],
          enderecos = [\<lparr>e_id = 1, e_rua = ''Rua A'', e_cidade = ''Recife'', e_cep = None,
                         e_usuario_id = 1, e_criado_em = 3\<rparr>,
                       \<lparr>e_id = 2, e_rua = ''Rua B'', e_cidade = ''Natal'', e_cep = Some ''59000'',
                         e_usuario_id = 2, e_criado_em = 4\<rparr>,
                       \<lparr>e_id = 3, e_rua = ''Rua C'', e_cidade = ''Olinda'', e_cep = None,
                         e_usuario_id = 1, e_criado_em = 5\<rparr>],
          usuarios_seq = 2, enderecos_seq = 3\<rparr>"
  let ?db' = "\<lparr>usuarios = [\<lparr>u_id = 2, u_nome = ''Bia'', u_email = ''bia@x.org'', u_criado_em = 2\<rparr>],
      enderecos = [\<lparr>e_id = 2, e_rua = ''Rua B'', e_cidade = ''Natal'', e_cep = Some ''59000'',
                     e_usuario_id = 2, e_criado_em = 4\<rparr>],
      usuarios_seq = 2, enderecos_seq = 3\<rparr>"
  have wf: "wf_db ?db" by (simp add: wf_db_def fk_ok_def)
  have wf': "wf_db ?db'" by (simp add: wf_db_def fk_ok_def)
  show ?thesis
    using wf deletar_usuario_spec[OF wf, of 1 6] deletar_usuario_spec[OF wf', of 7 6]
    by (simp add: respond_def deletar_usuario_def delete_usuario_def usuario_by_id_def
        deletar_endereco_def endereco_by_id_def)
qed

section \<open>Updating a user\<close>




section \<open>Updating an address\<close>




section \<open>Reading a user with its addresses\<close>

text \<open>
Claim C5.  In a database that satisfies the schema's constraints, \<open>obter_usuario\<close> never
  changes the database; it raises \<open>HTTPException 404\<close> exactly when no user has the id
  (and raises nothing else).  When a user has the id it answers 200 with that user, the
  only one with the id, and the list of the addresses whose \<open>usuario_id\<close> is the id, in
  table order: as a set these are exactly the stored addresses of the user, their ids
  are exactly the ids of those addresses, no id occurs twice, and the list is as long
  as the number of those addresses.
\<close>

theorem obter_usuario_spec:
  assumes "wf_db db"
  shows
   "snd (obter_usuario i db) = db \<and>
    (fst (obter_usuario i db) = Inl (HTTPException 404 Usuario_nao_encontrado) \<longleftrightarrow>
       (\<forall>u\<in>set (usuarios db). u_id u \<noteq> i)) \<and>
    (isl (fst (obter_usuario i db)) \<longleftrightarrow> (\<forall>u\<in>set (usuarios db). u_id u \<noteq> i)) \<and>
    ((\<forall>u\<in>set (usuarios db). u_id u \<noteq> i) \<longrightarrow>
       handle (GetUsuario i) now db =
         ((404, Inl (HTTPException 404 Usuario_nao_encontrado)), db)) \<and>
    ((\<exists>u\<in>set (usuarios db). u_id u = i) \<longrightarrow>
       (\<exists>u es. obter_usuario i db = (Inr (u, es), db) \<and>
          handle (GetUsuario i) now db = ((200, Inr (UsuarioComEnderecos u es)), db) \<and>
          u \<in> set (usuarios db) \<and> u_id u = i \<and>
          (\<forall>v\<in>set (usuarios db). u_id v = i \<longrightarrow> v = u) \<and>
          es = filter (\<lambda>e. e_usuario_id e = i) (enderecos db) \<and>
          set es = {e \<in> set (enderecos db). e_usuario_id e = i} \<and>
          e_id ` set es = {e_id e |e. e \<in> set (enderecos db) \<and> e_usuario_id e = i} \<and>
          distinct (map e_id es) \<and>
          length es = card {e \<in> set (enderecos db). e_usuario_id e = i}))"
proof (intro conjI impI)
  show "snd (obter_usuario i db) = db" by simp
  show "fst (obter_usuario i db) = Inl (HTTPException 404 Usuario_nao_encontrado) \<longleftrightarrow>
       (\<forall>u\<in>set (usuarios db). u_id u \<noteq> i)"
    using usuario_by_id_None[of i db]
    by (cases "usuario_by_id i db") (simp_all add: obter_usuario_def)
  show "isl (fst (obter_usuario i db)) \<longleftrightarrow> (\<forall>u\<in>set (usuarios db). u_id u \<noteq> i)"
    using usuario_by_id_None[of i db]
    by (cases "usuario_by_id i db") (simp_all add: obter_usuario_def)
next
  assume "\<forall>u\<in>set (usuarios db). u_id u \<noteq> i"
  then have "usuario_by_id i db = None" by (simp add: usuario_by_id_None)
  then show "handle (GetUsuario i) now db =
         ((404, Inl (HTTPException 404 Usuario_nao_encontrado)), db)"
    by (simp add: obter_usuario_def respond_def)
next
  assume "\<exists>u\<in>set (usuarios db). u_id u = i"
  then have "usuario_by_id i db \<noteq> None" by (simp add: usuario_by_id_None)
  then obtain u where u: "usuario_by_id i db = Some u" by (cases "usuario_by_id i db") auto
  have uin: "u \<in> set (usuarios db)" and uid: "u_id u = i"
    using usuario_by_id_SomeD[OF u] by simp_all
  define es where "es = filter (\<lambda>e. e_usuario_id e = i) (enderecos db)"
  have res: "obter_usuario i db = (Inr (u, es), db)"
    by (simp add: obter_usuario_def u uid enderecos_of_def es_def)
  have only: "\<forall>v\<in>set (usuarios db). u_id v = i \<longrightarrow> v = u"
  proof (intro ballI impI)
    fix v assume "v \<in> set (usuarios db)" and "u_id v = i"
    moreover have "distinct (map u_id (usuarios db))" using assms by (simp add: wf_db_def)
    ultimately show "v = u" using uin uid by (metis distinct_map_inj)
  qed
  have dist: "distinct (map e_id es)"
    unfolding es_def using assms by (simp add: wf_db_def distinct_map_filter)
  then have "distinct es" by (simp add: distinct_map)
  then have "length es = card (set es)" by (simp add: distinct_card)
  then have len: "length es = card {e \<in> set (enderecos db). e_usuario_id e = i}"
    by (simp add: es_def)
  show "\<exists>u es. obter_usuario i db = (Inr (u, es), db) \<and>
          handle (GetUsuario i) now db = ((200, Inr (UsuarioComEnderecos u es)), db) \<and>
          u \<in> set (usuarios db) \<and> u_id u = i \<and>
          (\<forall>v\<in>set (usuarios db). u_id v = i \<longrightarrow> v = u) \<and>
          es = filter (\<lambda>e. e_usuario_id e = i) (enderecos db) \<and>
          set es = {e \<in> set (enderecos db). e_usuario_id e = i} \<and>
          e_id ` set es = {e_id e |e. e \<in> set (enderecos db) \<and> e_usuario_id e = i} \<and>
          distinct (map e_id es) \<and>
          length es = card {e \<in> set (enderecos db). e_usuario_id e = i}"
  proof (rule exI[of _ u], rule exI[of _ es], intro conjI)
    show "obter_usuario i db = (Inr (u, es), db)" by (rule res)
    show "handle (GetUsuario i) now db = ((200, Inr (UsuarioComEnderecos u es)), db)"
      by (simp add: res respond_def)
    show "u \<in> set (usuarios db)" by (rule uin)
    show "u_id u = i" by (rule uid)
    show "\<forall>v\<in>set (usuarios db). u_id v = i \<longrightarrow> v = u" by (rule only)
    show "es = filter (\<lambda>e. e_usuario_id e = i) (enderecos db)" by (rule es_def)
    show "set es = {e \<in> set (enderecos db). e_usuario_id e = i}" by (simp add: es_def)
    show "e_id ` set es = {e_id e |e. e \<in> set (enderecos db) \<and> e_usuario_id e = i}"
      by (auto simp: es_def)
    show "distinct (map e_id es)" by (rule dist)
    show "length es = card {e \<in> set (enderecos db). e_usuario_id e = i}" by (rule len)
  qed
qed

theorem obter_usuario_spec_witness:
  "wf_db \<lparr>usuarios = [\<lparr>u_id = 1, u_nome = ''Ana'', u_email = ''ana@x.org'', u_criado_em = 1\<rparr>,
                       \<lparr>u_id = 2, u_nome = ''Bia'', u_email = ''bia@x.org'', u_criado_em = 2\<rparr>],
          enderecos = [\<lparr>e_id = 1, e_rua = ''Rua A'', e_cidade = ''Recife'', e_cep = None,
                         e_usuario_id = 1, e_criado_em = 3\<rparr>,
                       \<lparr>e_id = 2, e_rua = ''Rua B'', e_cidade = ''Natal'', e_cep = Some ''59000'',
                         e_usuario_id = 2, e_criado_em = 4\<rparr>,
                       \<lparr>e_id = 3, e_rua = ''Rua C'', e_cidade = ''Olinda'', e_cep = None,
                         e_usuario_id = 1, e_criado_em = 5\<rparr>],
          usuarios_seq = 2, enderecos_seq = 3\<rparr> \<and>
   handle (GetUsuario 1) 6
     \<lparr>usuarios = [\<lparr>u_id = 1, u_nome = ''Ana'', u_email = ''ana@x.org'', u_criado_em = 1\<rparr>,
                   \<lparr>u_id = 2, u_nome = ''Bia'', u_email = ''bia@x.org'', u_criado_em = 2\<rparr>],
      enderecos = [\<lparr>e_id = 1, e_rua = ''Rua A'', e_cidade = ''Recife'', e_cep = None,
                     e_usuario_id = 1, e_criado_em = 3\<rparr>,
                   \<lparr>e_id = 2, e_rua = ''Rua B'', e_cidade = ''Natal'', e_cep = Some ''59000'',
                     e_usuario_id = 2, e_criado_em = 4\<rparr>,
                   \<lparr>e_id = 3, e_rua = ''Rua C'', e_cidade = ''Olinda'', e_cep = None,
                     e_usuario_id = 1, e_criado_em = 5\<rparr>],
      usuarios_seq = 2, enderecos_seq = 3\<rparr> =
   ((200, Inr (UsuarioComEnderecos
       \<lparr>u_id = 1, u_nome = ''Ana'', u_email = ''ana@x.org'', u_criado_em = 1\<rparr>
       [\<lparr>e_id = 1, e_rua = ''Rua A'', e_cidade = ''Recife'', e_cep = None,
          e_usuario_id = 1, e_criado_em = 3\<rparr>,
        \<lparr>e_id = 3, e_rua = ''Rua C'', e_cidade = ''Olinda'', e_cep = None,
          e_usuario_id = 1, e_criado_em = 5\<rparr>])),
    \<lparr>usuarios = [\<lparr>u_id = 1, u_nome = ''Ana'', u_email = ''ana@x.org'', u_criado_em = 1\<rparr>,
                   \<lparr>u_id = 2, u_nome = ''Bia'', u_email = ''bia@x.org'', u_criado_em = 2\<rparr>],
      enderecos = [\<lparr>e_id = 1, e_rua = ''Rua A'', e_cidade = ''Recife'', e_cep = None,
                     e_usuario_id = 1, e_criado_em = 3\<rparr>,
                   \<lparr>e_id = 2, e_rua = ''Rua B'', e_cidade = ''Natal'', e_cep = Some ''59000'',
                     e_usuario_id = 2, e_criado_em = 4\<rparr>,
                   \<lparr>e_id = 3, e_rua = ''Rua C'', e_cidade = ''Olinda'', e_cep = None,
                     e_usuario_id = 1, e_criado_em = 5\<rparr>],
      usuarios_seq = 2, enderecos_seq = 3\<rparr>) \<and>
   fst (handle (GetUsuario 3) 6
     \<lparr>usuarios = [\<lparr>u_id = 1, u_nome = ''Ana'', u_email = ''ana@x.org'', u_criado_em = 1\<rparr>,
                   \<lparr>u_id = 2, u_nome = ''Bia'', u_email = ''bia@x.org'', u_criado_em = 2\<rparr>],
      enderecos = [\<lparr>e_id = 1, e_rua = ''Rua A'', e_cidade = ''Recife'', e_cep = None,
                     e_usuario_id = 1, e_criado_em = 3\<rparr>,
                   \<lparr>e_id = 2, e_rua = ''Rua B'', e_cidade = ''Natal'', e_cep = Some ''59000'',
                     e_usuario_id = 2, e_criado_em = 4\<rparr>,
                   \<lparr>e_id = 3, e_rua = ''Rua C'', e_cidade = ''Olinda'', e_cep = None,
                     e_usuario_id = 1, e_criado_em = 5\<rparr>],
      usuarios_seq = 2, enderecos_seq = 3\<rparr>) =
   (404, Inl (HTTPException 404 Usuario_nao_encontrado))"
proof -
  let ?db = "\<lparr>usuarios = [\<lparr>u_id = 1, u_nome = ''Ana'', u_email = ''ana@x.org'', u_criado_em = 1\<rparr>,
                       \<lparr>u_id = 2, u_nome = ''Bia'', u_email = ''bia@x.org'', u_criado_em = 2\<rparr>],
          enderecos = [\<lparr>e_id = 1, e_rua = ''Rua A'', e_cidade = ''Recife'', e_cep = None,
                         e_usuario_id = 1, e_criado_em = 3\<rparr>,
                       \<lparr>e_id = 2, e_rua = ''Rua B'', e_cidade = ''Natal'', e_cep = Some ''59000'',
                         e_usuario_id = 2, e_criado_em = 4\<rparr>,
                       \<lparr>e_id = 3, e_rua = ''Rua C'', e_cidade = ''Olinda'', e_cep = None,
                         e_usuario_id = 1, e_criado_em = 5\<rparr>],
          usuarios_seq = 2, enderecos_seq = 3\<rparr>"
  have wf: "wf_db ?db" by (simp add: wf_db_def fk_ok_def)
  show ?thesis
    using wf obter_usuario_spec[OF wf, of 1 6] obter_usuario_spec[OF wf, of 3 6]
    by (simp add: respond_def obter_usuario_def usuario_by_id_def enderecos_of_def)
qed

section \<open>Creating an address\<close>



section \<open>Deleting an address\<close>

lemma filter_remove_nth:
  assumes "distinct (map key xs)" and "k < length xs" and "key (xs ! k) = i"
  shows "filter (\<lambda>x. key x \<noteq> i) xs = take k xs @ drop (Suc k) xs"
proof -
  have dec: "xs = take k xs @ xs ! k # drop (Suc k) xs"
    using assms(2) by (rule id_take_nth_drop)
  have "distinct (map key (take k xs @ xs ! k # drop (Suc k) xs))"
    using assms(1) unfolding dec[symmetric] .
  then have n1: "key (xs ! k) \<notin> key ` set (take k xs)"
    and n2: "key (xs ! k) \<notin> key ` set (drop (Suc k) xs)"
    by auto
  have a: "\<forall>x\<in>set (take k xs). key x \<noteq> i"
    using n1 assms(3) by (metis imageI)
  have b: "\<forall>x\<in>set (drop (Suc k) xs). key x \<noteq> i"
    using n2 assms(3) by (metis imageI)
  have "filter (\<lambda>x. key x \<noteq> i) xs =
        filter (\<lambda>x. key x \<noteq> i) (take k xs @ xs ! k # drop (Suc k) xs)"
    by (rule arg_cong[OF dec])
  also have "\<dots> = take k xs @ drop (Suc k) xs"
    using a b assms(3) by (simp add: filter_id_conv)
  finally show ?thesis .
qed

text \<open>
Claim C9.  In a database that satisfies the schema's constraints, \<open>deletar_endereco\<close>
  raises \<open>HTTPException 404\<close> and changes nothing when no address has the id.  Otherwise
  it answers 204 and removes the row at the one position \<open>k\<close> that holds the id: the
  table of addresses is the old one without that position, so it is one row shorter and
  holds exactly the other rows, unchanged and in their order; the users and the
  sequences are as before, and the id is no longer found.
\<close>

theorem deletar_endereco_spec:
  assumes "wf_db db"
  shows
   "((\<forall>e\<in>set (enderecos db). e_id e \<noteq> i) \<longrightarrow>
       deletar_endereco i db = (Inl (HTTPException 404 Endereco_nao_encontrado), db) \<and>
       handle (DeleteEndereco i) now db =
         ((404, Inl (HTTPException 404 Endereco_nao_encontrado)), db)) \<and>
    ((\<exists>e\<in>set (enderecos db). e_id e = i) \<longrightarrow>
       (\<exists>k old db'.
          k < length (enderecos db) \<and> enderecos db ! k = old \<and> e_id old = i \<and>
          deletar_endereco i db = (Inr (), db') \<and>
          handle (DeleteEndereco i) now db = ((204, Inr NoContent), db') \<and>
          db' = db\<lparr>enderecos := take k (enderecos db) @ drop (Suc k) (enderecos db)\<rparr> \<and>
          usuarios db' = usuarios db \<and>
          set (enderecos db') = set (enderecos db) - {old} \<and>
          length (enderecos db') + 1 = length (enderecos db) \<and>
          endereco_by_id i db' = None))"
proof (intro conjI impI)
  assume nf: "\<forall>e\<in>set (enderecos db). e_id e \<noteq> i"
  show a: "deletar_endereco i db = (Inl (HTTPException 404 Endereco_nao_encontrado), db)"
    using nf by (rule deletar_endereco_nf)
  show "handle (DeleteEndereco i) now db =
         ((404, Inl (HTTPException 404 Endereco_nao_encontrado)), db)"
    by (simp add: a respond_def)
next
  assume "\<exists>e\<in>set (enderecos db). e_id e = i"
  then have "endereco_by_id i db \<noteq> None" by (simp add: endereco_by_id_None)
  then obtain old where old: "endereco_by_id i db = Some old"
    by (cases "endereco_by_id i db") auto
  have oin: "old \<in> set (enderecos db)" and oid: "e_id old = i"
    using endereco_by_id_SomeD[OF old] by simp_all
  from oin obtain k where k: "k < length (enderecos db)" and ok: "enderecos db ! k = old"
    by (metis in_set_conv_nth)
  have dist: "distinct (map e_id (enderecos db))" using assms by (simp add: wf_db_def)
  define db' where
    "db' = db\<lparr>enderecos := take k (enderecos db) @ drop (Suc k) (enderecos db)\<rparr>"
  have flt: "filter (\<lambda>e. e_id e \<noteq> i) (enderecos db) =
             take k (enderecos db) @ drop (Suc k) (enderecos db)"
    using dist k by (rule filter_remove_nth) (simp add: ok oid)
  have res: "deletar_endereco i db = (Inr (), db')"
    by (simp add: deletar_endereco_def old oid delete_endereco_def flt db'_def)
  have es': "enderecos db' = filter (\<lambda>e. e_id e \<noteq> i) (enderecos db)"
    by (simp add: db'_def flt)
  have sets: "set (enderecos db') = set (enderecos db) - {old}"
  proof -
    have "x \<in> set (enderecos db) \<Longrightarrow> e_id x = i \<longleftrightarrow> x = old" for x
      using dist oin oid by (metis distinct_map_inj)
    then show ?thesis unfolding es' by auto
  qed
  have len: "length (enderecos db') + 1 = length (enderecos db)"
    using k by (simp add: db'_def)
  have gone: "endereco_by_id i db' = None"
    by (simp add: endereco_by_id_None es')
  show "\<exists>k old db'.
          k < length (enderecos db) \<and> enderecos db ! k = old \<and> e_id old = i \<and>
          deletar_endereco i db = (Inr (), db') \<and>
          handle (DeleteEndereco i) now db = ((204, Inr NoContent), db') \<and>
          db' = db\<lparr>enderecos := take k (enderecos db) @ drop (Suc k) (enderecos db)\<rparr> \<and>
          usuarios db' = usuarios db \<and>
          set (enderecos db') = set (enderecos db) - {old} \<and>
          length (enderecos db') + 1 = length (enderecos db) \<and>
          endereco_by_id i db' = None"
  proof (rule exI[of _ k], rule exI[of _ old], rule exI[of _ db'], intro conjI)
    show "k < length (enderecos db)" by (rule k)
    show "enderecos db ! k = old" by (rule ok)
    show "e_id old = i" by (rule oid)
    show "deletar_endereco i db = (Inr (), db')" by (rule res)
    show "handle (DeleteEndereco i) now db = ((204, Inr NoContent), db')"
      by (simp add: res respond_def)
    show "db' = db\<lparr>enderecos := take k (enderecos db) @ drop (Suc k) (enderecos db)\<rparr>"
      by (rule db'_def)
    show "usuarios db' = usuarios db" by (simp add: db'_def)
    show "set (enderecos db') = set (enderecos db) - {old}" by (rule sets)
    show "length (enderecos db') + 1 = length (enderecos db)" by (rule len)
    show "endereco_by_id i db' = None" by (rule gone)
  qed
qed

theorem deletar_endereco_spec_witness:
  "wf_db \<lparr>usuarios = [\<lparr>u_id = 1, u_nome = ''Ana'', u_email = ''ana@x.org'', u_criado_em = 1\<rparr>],
          enderecos = [\<lparr>e_id = 1, e_rua = ''Rua A'', e_cidade = ''Recife'', e_cep = Some ''50000'',
                         e_usuario_id = 1, e_criado_em = 3\<rparr>,
                       \<lparr>e_id = 2, e_rua = ''Rua B'', e_cidade = ''Olinda'', e_cep = None,
                         e_usuario_id = 1, e_criado_em = 4\<rparr>],
          usuarios_seq = 1, enderecos_seq = 2\<rparr> \<and>
   handle (DeleteEndereco 1) 9
     \<lparr>usuarios = [\<lparr>u_id = 1, u_nome = ''Ana'', u_email = ''ana@x.org'', u_criado_em = 1\<rparr>],
       enderecos = [\<lparr>e_id = 1, e_rua = ''Rua A'', e_cidade = ''Recife'', e_cep = Some ''50000'',
                      e_usuario_id = 1, e_criado_em = 3\<rparr>,
                    \<lparr>e_id = 2, e_rua = ''Rua B'', e_cidade = ''Olinda'', e_cep = None,
                      e_usuario_id = 1, e_criado_em = 4\<rparr>],
       usuarios_seq = 1, enderecos_seq = 2\<rparr> =
   ((204, Inr NoContent),
     \<lparr>usuarios = [\<lparr>u_id = 1, u_nome = ''Ana'', u_email = ''ana@x.org'', u_criado_em = 1\<rparr>],
       enderecos = [\<lparr>e_id = 2, e_rua = ''Rua B'', e_cidade = ''Olinda'', e_cep = None,
                      e_usuario_id = 1, e_criado_em = 4\<rparr>],
       usuarios_seq = 1, enderecos_seq = 2\<rparr>) \<and>
   handle (DeleteEndereco 7) 9
     \<lparr>usuarios = [\<lparr>u_id = 1, u_nome = ''Ana'', u_email = ''ana@x.org'', u_criado_em = 1\<rparr>],
       enderecos = [\<lparr>e_id = 1, e_rua = ''Rua A'', e_cidade = ''Recife'', e_cep = Some ''50000'',
                      e_usuario_id = 1, e_criado_em = 3\<rparr>,
                    \<lparr>e_id = 2, e_rua = ''Rua B'', e_cidade = ''Olinda'', e_cep = None,
                      e_usuario_id = 1, e_criado_em = 4\<rparr>],
       usuarios_seq = 1, enderecos_seq = 2\<rparr> =
   ((404, Inl (HTTPException 404 Endereco_nao_encontrado)),
     \<lparr>usuarios = [\<lparr>u_id = 1, u_nome = ''Ana'', u_email = ''ana@x.org'', u_criado_em = 1\<rparr>],
       enderecos = [\<lparr>e_id = 1, e_rua = ''Rua A'', e_cidade = ''Recife'', e_cep = Some ''50000'',
                      e_usuario_id = 1, e_criado_em = 3\<rparr>,
                    \<lparr>e_id = 2, e_rua = ''Rua B'', e_cidade = ''Olinda'', e_cep = None,
                      e_usuario_id = 1, e_criado_em = 4\<rparr>],
       usuarios_seq = 1, enderecos_seq = 2\<rparr>)"
proof -
  let ?db = "\<lparr>usuarios = [\<lparr>u_id = 1, u_nome = ''Ana'', u_email = ''ana@x.org'', u_criado_em = 1\<rparr>],
          enderecos = [\<lparr>e_id = 1, e_rua = ''Rua A'', e_cidade = ''Recife'', e_cep = Some ''50000'',
                         e_usuario_id = 1, e_criado_em = 3\<rparr>,
                       \<lparr>e_id = 2, e_rua = ''Rua B'', e_cidade = ''Olinda'', e_cep = None,
                         e_usuario_id = 1, e_criado_em = 4\<rparr>],
          usuarios_seq = 1, enderecos_seq = 2\<rparr>"
  have wf: "wf_db ?db" by (simp add: wf_db_def fk_ok_def)
  show ?thesis
    using wf deletar_endereco_spec[OF wf, of 1 9] deletar_endereco_spec[OF wf, of 7 9]
    by (simp add: respond_def deletar_endereco_def delete_endereco_def endereco_by_id_def)
qed

section \<open>Listing users\<close>





section \<open>The owner of a new address\<close>

lemma validate_ignores_usuario_id:
  "validate_EnderecoBase (body(''usuario_id'' := v)) = validate_EnderecoBase body"
proof -
  have r: "(body(''usuario_id'' := v)) ''rua'' = body ''rua''" by simp
  have c: "(body(''usuario_id'' := v)) ''cidade'' = body ''cidade''" by simp
  have p: "(body(''usuario_id'' := v)) ''cep'' = body ''cep''" by simp
  show ?thesis by (simp only: validate_EnderecoBase_def r c p)
qed

lemma insert_endereco_cases:
  "insert_endereco r c p uid now db =
     (Inl IntegrityError, db\<lparr>enderecos_seq := enderecos_seq db + 1\<rparr>) \<or>
   (\<forall>x\<in>set (enderecos db). e_id x \<noteq> enderecos_seq db + 1) \<and>
   insert_endereco r c p uid now db =
     (Inr (enderecos_seq db + 1),
      db\<lparr>enderecos_seq := enderecos_seq db + 1,
         enderecos := enderecos db @
           [\<lparr>e_id = enderecos_seq db + 1, e_rua = r, e_cidade = c, e_cep = p,
             e_usuario_id = uid, e_criado_em = now\<rparr>]\<rparr>)"
proof (cases "(\<exists>e\<in>set (enderecos db). e_id e = enderecos_seq db + 1) \<or>
              \<not> (\<exists>u\<in>set (usuarios db). u_id u = uid)")
  case True
  then show ?thesis unfolding insert_endereco_def Let_def by (simp only: if_True simp_thms)
next
  case False
  then have fresh: "\<forall>x\<in>set (enderecos db). e_id x \<noteq> enderecos_seq db + 1" by blast
  have "insert_endereco r c p uid now db =
     (Inr (enderecos_seq db + 1),
      db\<lparr>enderecos_seq := enderecos_seq db + 1,
         enderecos := enderecos db @
           [\<lparr>e_id = enderecos_seq db + 1, e_rua = r, e_cidade = c, e_cep = p,
             e_usuario_id = uid, e_criado_em = now\<rparr>]\<rparr>)"
    using False unfolding insert_endereco_def Let_def by (simp only: if_False)
  with fresh show ?thesis by (intro disjI2 conjI)
qed

lemma criar_endereco_InrD:
  assumes "criar_endereco uid endereco now db = (Inr novo, db')"
  shows "novo = \<lparr>e_id = enderecos_seq db + 1, e_rua = rua endereco, e_cidade = cidade endereco,
                  e_cep = cep endereco, e_usuario_id = uid, e_criado_em = now\<rparr> \<and>
         db' = db\<lparr>enderecos_seq := enderecos_seq db + 1, enderecos := enderecos db @ [novo]\<rparr> \<and>
         (\<forall>x\<in>set (enderecos db). e_id x \<noteq> e_id novo)"
proof -
  from assms obtain u where u: "usuario_by_id uid db = Some u"
    by (cases "usuario_by_id uid db") (auto simp: criar_endereco_def)
  from insert_endereco_cases[of "rua endereco" "cidade endereco" "cep endereco" uid now db]
  show ?thesis
  proof
    assume "insert_endereco (rua endereco) (cidade endereco) (cep endereco) uid now db =
      (Inl IntegrityError, db\<lparr>enderecos_seq := enderecos_seq db + 1\<rparr>)"
    then have "criar_endereco uid endereco now db =
      (Inl IntegrityError, db\<lparr>enderecos_seq := enderecos_seq db + 1\<rparr>)"
      using u by (simp add: criar_endereco_def)
    then show ?thesis using assms by simp
  next
    assume h: "(\<forall>x\<in>set (enderecos db). e_id x \<noteq> enderecos_seq db + 1) \<and>
      insert_endereco (rua endereco) (cidade endereco) (cep endereco) uid now db =
       (Inr (enderecos_seq db + 1),
        db\<lparr>enderecos_seq := enderecos_seq db + 1,
           enderecos := enderecos db @
             [\<lparr>e_id = enderecos_seq db + 1, e_rua = rua endereco, e_cidade = cidade endereco,
               e_cep = cep endereco, e_usuario_id = uid, e_criado_em = now\<rparr>]\<rparr>)"
    then have "criar_endereco uid endereco now db =
       (Inr \<lparr>e_id = enderecos_seq db + 1, e_rua = rua endereco, e_cidade = cidade endereco,
               e_cep = cep endereco, e_usuario_id = uid, e_criado_em = now\<rparr>,
        db\<lparr>enderecos_seq := enderecos_seq db + 1,
           enderecos := enderecos db @
             [\<lparr>e_id = enderecos_seq db + 1, e_rua = rua endereco, e_cidade = cidade endereco,
               e_cep = cep endereco, e_usuario_id = uid, e_criado_em = now\<rparr>]\<rparr>)"
      using u
      by (simp add: criar_endereco_def refresh_endereco_def endereco_by_id_def find_append_new)
    then show ?thesis using assms h by simp
  qed
qed

lemma criar_endereco_rows:
  "x \<in> set (enderecos (snd (criar_endereco uid endereco now db))) \<Longrightarrow>
   x \<in> set (enderecos db) \<or> e_usuario_id x = uid"
  by (auto simp: criar_endereco_def insert_endereco_def Let_def refresh_endereco_def
      split: option.splits if_splits)

text \<open>
Claim C10.  The schema \<open>EnderecoBase\<close> reads no key \<open>usuario_id\<close>: whatever the body
  says under that key (a number, anything else, or nothing), validation yields the
  same address and the route \<open>POST /usuarios/{usuario_id}/enderecos\<close> gives the same
  response and the same database.  When the route answers 201, the record it returns
  and stores carries the id of the path as its \<open>usuario_id\<close>; and in every case, each
  row of the table of addresses afterwards was there before or belongs to the user of
  the path.
\<close>

theorem post_usuarios_enderecos_spec:
  "validate_EnderecoBase (body(''usuario_id'' := v)) = validate_EnderecoBase body \<and>
   post_usuarios_enderecos uid (body(''usuario_id'' := v)) now db =
     post_usuarios_enderecos uid body now db \<and>
   (\<forall>novo db'. post_usuarios_enderecos uid body now db = ((201, Inr (EnderecoResponse novo)), db') \<longrightarrow>
      e_usuario_id novo = uid \<and> enderecos db' = enderecos db @ [novo] \<and>
      endereco_by_id (e_id novo) db' = Some novo) \<and>
   (\<forall>x\<in>set (enderecos (snd (post_usuarios_enderecos uid body now db))).
      x \<in> set (enderecos db) \<or> e_usuario_id x = uid)"
proof (intro conjI allI impI ballI)
  show v: "validate_EnderecoBase (body(''usuario_id'' := v)) = validate_EnderecoBase body"
    by (rule validate_ignores_usuario_id)
  show "post_usuarios_enderecos uid (body(''usuario_id'' := v)) now db =
     post_usuarios_enderecos uid body now db"
    by (simp add: post_usuarios_enderecos_def v)
next
  fix novo db'
  assume a: "post_usuarios_enderecos uid body now db = ((201, Inr (EnderecoResponse novo)), db')"
  then obtain endereco where e: "validate_EnderecoBase body = Inr endereco"
    by (cases "validate_EnderecoBase body") (auto simp: post_usuarios_enderecos_def)
  have "criar_endereco uid endereco now db = (Inr novo, db')"
    using a e
    by (cases "criar_endereco uid endereco now db"; cases "fst (criar_endereco uid endereco now db)")
       (auto simp: post_usuarios_enderecos_def respond_def)
  note inr = criar_endereco_InrD[OF this]
  have n: "novo = \<lparr>e_id = enderecos_seq db + 1, e_rua = rua endereco, e_cidade = cidade endereco,
                  e_cep = cep endereco, e_usuario_id = uid, e_criado_em = now\<rparr>"
    by (rule inr[THEN conjunct1])
  have d: "db' = db\<lparr>enderecos_seq := enderecos_seq db + 1, enderecos := enderecos db @ [novo]\<rparr>"
    by (rule inr[THEN conjunct2, THEN conjunct1])
  have fresh: "\<forall>x\<in>set (enderecos db). e_id x \<noteq> e_id novo"
    by (rule inr[THEN conjunct2, THEN conjunct2])
  show "e_usuario_id novo = uid" by (simp add: n)
  show "enderecos db' = enderecos db @ [novo]" by (simp add: d)
  show "endereco_by_id (e_id novo) db' = Some novo"
    using fresh by (simp add: d endereco_by_id_def find_append_new)
next
  fix x
  assume "x \<in> set (enderecos (snd (post_usuarios_enderecos uid body now db)))"
  then show "x \<in> set (enderecos db) \<or> e_usuario_id x = uid"
    using criar_endereco_rows[of x uid _ now db]
    by (cases "validate_EnderecoBase body") (auto simp: post_usuarios_enderecos_def)
qed

theorem post_usuarios_enderecos_spec_witness:
  "post_usuarios_enderecos 1
     [''rua'' \<mapsto> JString ''Rua B'', ''cidade'' \<mapsto> JString ''Olinda'', ''usuario_id'' \<mapsto> JNumber 2] 9
     \<lparr>usuarios = [\<lparr>u_id = 1, u_nome = ''Ana'', u_email = ''ana@x.org'', u_criado_em = 1\<rparr>,
                   \<lparr>u_id = 2, u_nome = ''Bia'', u_email = ''bia@x.org'', u_criado_em = 2\<rparr>],
       enderecos = [], usuarios_seq = 2, enderecos_seq = 0\<rparr> =
   ((201, Inr (EnderecoResponse \<lparr>e_id = 1, e_rua = ''Rua B'', e_cidade = ''Olinda'', e_cep = None,
                      e_usuario_id = 1, e_criado_em = 9\<rparr>)),
     \<lparr>usuarios = [\<lparr>u_id = 1, u_nome = ''Ana'', u_email = ''ana@x.org'', u_criado_em = 1\<rparr>,
                   \<lparr>u_id = 2, u_nome = ''Bia'', u_email = ''bia@x.org'', u_criado_em = 2\<rparr>],
       enderecos = [\<lparr>e_id = 1, e_rua = ''Rua B'', e_cidade = ''Olinda'', e_cep = None,
                      e_usuario_id = 1, e_criado_em = 9\<rparr>],
       usuarios_seq = 2, enderecos_seq = 1\<rparr>) \<and>
   post_usuarios_enderecos 1
     [''rua'' \<mapsto> JString ''Rua B'', ''cidade'' \<mapsto> JString ''Olinda'', ''usuario_id'' \<mapsto> JNumber 2] 9
     \<lparr>usuarios = [\<lparr>u_id = 1, u_nome = ''Ana'', u_email = ''ana@x.org'', u_criado_em = 1\<rparr>,
                   \<lparr>u_id = 2, u_nome = ''Bia'', u_email = ''bia@x.org'', u_criado_em = 2\<rparr>],
       enderecos = [], usuarios_seq = 2, enderecos_seq = 0\<rparr> =
   post_usuarios_enderecos 1
     [''rua'' \<mapsto> JString ''Rua B'', ''cidade'' \<mapsto> JString ''Olinda''] 9
     \<lparr>usuarios = [\<lparr>u_id = 1, u_nome = ''Ana'', u_email = ''ana@x.org'', u_criado_em = 1\<rparr>,
                   \<lparr>u_id = 2, u_nome = ''Bia'', u_email = ''bia@x.org'', u_criado_em = 2\<rparr>],
       enderecos = [], usuarios_seq = 2, enderecos_seq = 0\<rparr>"
  using post_usuarios_enderecos_spec[of
      "[''rua'' \<mapsto> JString ''Rua B'', ''cidade'' \<mapsto> JString ''Olinda'']" "Some (JNumber 2)" 1 9
      "\<lparr>usuarios = [\<lparr>u_id = 1, u_nome = ''Ana'', u_email = ''ana@x.org'', u_criado_em = 1\<rparr>,
                   \<lparr>u_id = 2, u_nome = ''Bia'', u_email = ''bia@x.org'', u_criado_em = 2\<rparr>],
       enderecos = [], usuarios_seq = 2, enderecos_seq = 0\<rparr>"]
  by (simp add: post_usuarios_enderecos_def validate_EnderecoBase_def str_field_def respond_def
      criar_endereco_def insert_endereco_def refresh_endereco_def usuario_by_id_def
      endereco_by_id_def Let_def)

section \<open>Two requests creating the same email at once\<close>

lemma interleave_alone:
  "interleave [0, 0] [(usuario, now, Inicio)] db =
     ([(usuario, now, Terminado (fst (criar_usuario usuario now db)))],
      snd (criar_usuario usuario now db))"
  by (cases "usuario_by_email (email usuario) db")
     (simp_all add: criar_usuario_step_def criar_usuario_def split: prod.splits)

text \<open>
  Claim C8 asks that of two requests racing to create the same email one succeeds and
  the other fails with the duplicate-email error, whatever the interleaving.  Served
  one after the other (schedule 0, 0, 1, 1) the second request does end in
  \<open>HTTPException 400\<close>.  When both pass the existence check before either commits
  (schedule 0, 1, 0, 1), the second commit violates the unique index on \<open>email\<close>:
  \<open>db.commit()\<close> raises \<open>IntegrityError\<close>, which \<open>criar_usuario\<close> does not catch, and the
  response is a server error 500, not the 400 of a duplicate email.
\<close>

theorem criar_usuario_race:
  "interleave [0, 0, 1, 1]
     [(\<lparr>nome = ''Ana'', email = ''ana@x.org''\<rparr>, 1, Inicio),
      (\<lparr>nome = ''Ana Maria'', email = ''ana@x.org''\<rparr>, 2, Inicio)] empty_db =
   ([(\<lparr>nome = ''Ana'', email = ''ana@x.org''\<rparr>, 1,
      Terminado (Inr \<lparr>u_id = 1, u_nome = ''Ana'', u_email = ''ana@x.org'', u_criado_em = 1\<rparr>)),
     (\<lparr>nome = ''Ana Maria'', email = ''ana@x.org''\<rparr>, 2,
      Terminado (Inl (HTTPException 400 Email_ja_cadastrado)))],
    \<lparr>usuarios = [\<lparr>u_id = 1, u_nome = ''Ana'', u_email = ''ana@x.org'', u_criado_em = 1\<rparr>],
      enderecos = [], usuarios_seq = 1, enderecos_seq = 0\<rparr>) \<and>
   interleave [0, 1, 0, 1]
     [(\<lparr>nome = ''Ana'', email = ''ana@x.org''\<rparr>, 1, Inicio),
      (\<lparr>nome = ''Ana Maria'', email = ''ana@x.org''\<rparr>, 2, Inicio)] empty_db =
   ([(\<lparr>nome = ''Ana'', email = ''ana@x.org''\<rparr>, 1,
      Terminado (Inr \<lparr>u_id = 1, u_nome = ''Ana'', u_email = ''ana@x.org'', u_criado_em = 1\<rparr>)),
     (\<lparr>nome = ''Ana Maria'', email = ''ana@x.org''\<rparr>, 2, Terminado (Inl IntegrityError))],
    \<lparr>usuarios = [\<lparr>u_id = 1, u_nome = ''Ana'', u_email = ''ana@x.org'', u_criado_em = 1\<rparr>],
      enderecos = [], usuarios_seq = 2, enderecos_seq = 0\<rparr>) \<and>
   status_of 201 (Inl IntegrityError :: error + Usuario) = 500 \<and>
   status_of 201 (Inl (HTTPException 400 Email_ja_cadastrado) :: error + Usuario) = 400"
  by (simp add: empty_db_def criar_usuario_step_def criar_usuario_commit_def insert_usuario_def
      refresh_usuario_def usuario_by_id_def usuario_by_email_def Let_def)

end
